theory Spec2Isabelle
  imports Main "HOL-Library.Word" "HOL-Library.AList"
begin

section \<open>The Istio beacon charm: data\<close>

text \<open>
  The charm object of \<^verbatim>\<open>src/charm.py\<close> is identified by the application name and the
  model name (which is also the Kubernetes namespace the charm lives in). A Python
  \<^verbatim>\<open>str\<close> is modelled as a \<open>string\<close>, one \<open>char\<close> per code point: Juju application
  and model names and Kubernetes label keys are ASCII.
\<close>

record charm =
  app_name :: string
  model_name :: string

text \<open>\<^verbatim>\<open>self._app_identity = f"{self.app.name}-{self.model.name}"\<close>\<close>

definition app_identity :: "charm \<Rightarrow> string" where
  "app_identity c = app_name c @ ''-'' @ model_name c"

text \<open>\<^verbatim>\<open>self._waypoint_name = f"{self.app.name}-{self.model.name}-waypoint"\<close>\<close>

definition waypoint_name :: "charm \<Rightarrow> string" where
  "waypoint_name c = app_name c @ ''-'' @ model_name c @ ''-waypoint''"

text \<open>
  What the charm does to the outside world is recorded as a trace of events, in the order
  the source performs them: the unit status it sets, the calls to the cluster client, the
  log lines, the sleeps and the calls to the Pebble container.
\<close>

datatype unit_status = BlockedStatus string | MaintenanceStatus string | ActiveStatus

datatype log_level = LDebug | LInfo | LWarning | LError

text \<open>
  A Python dict with string keys is an association list in insertion order, read with
  \<open>map_of\<close>. The body of a namespace patch maps a label to \<open>Some v\<close> (set it) or to
  \<open>None\<close> (Python's \<^verbatim>\<open>None\<close>, JSON null: remove it).
\<close>

type_synonym labels = "(string \<times> string) list"
type_synonym label_patch = "(string \<times> string option) list"

datatype json = JStr string | JInt int | JArr "json list" | JObj "(string \<times> json) list"

text \<open>
  A namespaced resource as the charm hands it to the cluster (a lightkube generic
  resource): its kind, the name, namespace and labels of its metadata, and its spec, the
  dict a pydantic \<^verbatim>\<open>model_dump\<close> produced.
\<close>

record k8s_object =
  obj_kind :: string
  obj_name :: string
  obj_namespace :: string
  obj_labels :: "labels option"
  obj_spec :: json

datatype event =
    SetStatus unit_status
  | Reconcile labels "k8s_object list"
  | GetNamespace
  | PatchNamespace label_patch
  | GetDeployment
  | Sleep nat
  | Log log_level string
  | AddLayer string
  | Replan

datatype error = RuntimeError string

section \<open>ReadinessGate: \<^verbatim>\<open>_is_waypoint_deployment_ready\<close>\<close>

text \<open>
  The status of the waypoint's Deployment as the cluster reports it: both replica counts
  are optional integers. A \<^verbatim>\<open>get\<close> of the Deployment either raises \<^verbatim>\<open>ApiError\<close> or returns
  the object, whose \<^verbatim>\<open>status\<close> may be \<^verbatim>\<open>None\<close>.
\<close>

record DeploymentStatus =
  readyReplicas :: "int option"
  replicas :: "int option"

datatype get_result = ApiError | Deployment "DeploymentStatus option"

text \<open>
  \<^verbatim>\<open>deployment.status and deployment.status.readyReplicas == deployment.status.replicas\<close>:
  a status object is truthy, and \<^verbatim>\<open>==\<close> on optional integers is equality of options
  (\<^verbatim>\<open>None == None\<close> holds).
\<close>

definition status_ready :: "DeploymentStatus option \<Rightarrow> bool" where
  "status_ready st = (case st of None \<Rightarrow> False | Some s \<Rightarrow> readyReplicas s = replicas s)"

text \<open>Python's \<^verbatim>\<open>range(n)\<close>: empty when \<open>n \<le> 0\<close>.\<close>

definition py_range :: "int \<Rightarrow> nat list" where
  "py_range n = [0..<nat n]"

text \<open>
  The body of \<^verbatim>\<open>for _ in range(attempts)\<close>. The \<open>i\<close>-th iteration reads the \<open>i\<close>-th answer
  of the cluster, \<open>get i\<close>. The result is the trace and the value returned.
\<close>

fun poll_loop :: "(nat \<Rightarrow> get_result) \<Rightarrow> nat \<Rightarrow> nat list \<Rightarrow> event list \<times> bool" where
  "poll_loop get check_interval [] = ([], False)"
| "poll_loop get check_interval (i # rest) =
     (case get i of
        ApiError \<Rightarrow>
          (let (es, r) = poll_loop get check_interval rest
           in ([GetDeployment, Log LInfo ''Deployment not found, retrying...'',
                Sleep check_interval] @ es, r))
      | Deployment st \<Rightarrow>
          if status_ready st then ([GetDeployment], True)
          else
            (let (es, r) = poll_loop get check_interval rest
             in ([GetDeployment, Log LInfo ''Deployment not ready, retrying...'',
                  Sleep check_interval] @ es, r)))"

definition is_waypoint_deployment_ready ::
  "int \<Rightarrow> (nat \<Rightarrow> get_result) \<Rightarrow> event list \<times> bool" where
  "is_waypoint_deployment_ready ready_timeout get =
     (let timeout = ready_timeout;
          check_interval = 10;
          attempts = timeout div int check_interval
      in poll_loop get check_interval (py_range attempts))"

definition is_waypoint_ready :: "int \<Rightarrow> (nat \<Rightarrow> get_result) \<Rightarrow> event list \<times> bool" where
  "is_waypoint_ready ready_timeout get =
     (let (es, r) = is_waypoint_deployment_ready ready_timeout get
      in if \<not> r then (es, False) else (es, True))"

text \<open>The number of times a trace reads the Deployment from the cluster.\<close>

definition polls :: "event list \<Rightarrow> nat" where
  "polls es = length (filter (\<lambda>e. e = GetDeployment) es)"

section \<open>NamespaceLabelManager: \<^verbatim>\<open>_add_labels\<close> and \<^verbatim>\<open>_remove_labels\<close>\<close>

text \<open>
  The Namespace object as the client returns it: \<^verbatim>\<open>metadata\<close> may be \<^verbatim>\<open>None\<close>, and so may
  \<^verbatim>\<open>metadata.labels\<close>.
\<close>

record ObjectMeta =
  labels :: "labels option"

record Namespace =
  metadata :: "ObjectMeta option"

definition USE_WAYPOINT :: string where
  "USE_WAYPOINT = ''istio.io/use-waypoint''"

definition DATAPLANE_MODE :: string where
  "DATAPLANE_MODE = ''istio.io/dataplane-mode''"

definition MANAGED_BY :: string where
  "MANAGED_BY = ''charms.canonical.com/istio.io.waypoint.managed-by''"

text \<open>
  \<^verbatim>\<open>_get_namespace\<close>: the answer of the cluster is \<open>None\<close> when the \<^verbatim>\<open>get\<close> raises \<^verbatim>\<open>ApiError\<close>,
  which is logged and turned into the value \<^verbatim>\<open>None\<close>.
\<close>

definition get_namespace :: "Namespace option \<Rightarrow> event list \<times> Namespace option" where
  "get_namespace answer =
     (case answer of
        None \<Rightarrow> ([GetNamespace, Log LError ''Error fetching namespace''], None)
      | Some ns \<Rightarrow> ([GetNamespace], Some ns))"

text \<open>\<^verbatim>\<open>_patch_namespace\<close>: an \<^verbatim>\<open>ApiError\<close> of the patch is logged and swallowed.\<close>

definition patch_namespace :: "bool \<Rightarrow> label_patch \<Rightarrow> event list" where
  "patch_namespace patch_ok body =
     (if patch_ok then [PatchNamespace body]
      else [PatchNamespace body, Log LError ''Error patching namespace''])"

text \<open>The truth value Python gives the result of \<^verbatim>\<open>dict.get\<close>: \<^verbatim>\<open>None\<close> and \<^verbatim>\<open>""\<close> are false.\<close>

definition truthy :: "string option \<Rightarrow> bool" where
  "truthy v = (case v of None \<Rightarrow> False | Some s \<Rightarrow> s \<noteq> [])"

text \<open>\<^verbatim>\<open>d.update(other)\<close>: the entries of \<open>other\<close> are stored from left to right.\<close>

definition dict_update :: "('k \<times> 'v) list \<Rightarrow> ('k \<times> 'v) list \<Rightarrow> ('k \<times> 'v) list" where
  "dict_update d other = fold (\<lambda>(k, v). AList.update k v) other d"

text \<open>The labels read from the cluster, as the dict the patch body is built from.\<close>

definition as_patch :: "labels \<Rightarrow> label_patch" where
  "as_patch ls = map (\<lambda>(k, v). (k, Some v)) ls"

definition add_labels :: "charm \<Rightarrow> Namespace option \<Rightarrow> bool \<Rightarrow> event list \<times> error option" where
  "add_labels c answer patch_ok =
     (case get_namespace answer of
        (es, None) \<Rightarrow> (es, Some (RuntimeError ''Error fetching namespace: None''))
      | (es, Some ns) \<Rightarrow>
          (let md = (case metadata ns of None \<Rightarrow> \<lparr>labels = None\<rparr> | Some m \<Rightarrow> m);
               existing_labels = (case labels md of None \<Rightarrow> [] | Some ls \<Rightarrow> ls)
           in if (truthy (map_of existing_labels USE_WAYPOINT)
                  \<or> truthy (map_of existing_labels DATAPLANE_MODE))
                 \<and> map_of existing_labels MANAGED_BY \<noteq> Some (app_identity c)
              then (es @ [Log LError ''Cannot add labels: Namespace is already configured with Istio labels managed by another entity.''], None)
              else
                (let labels_to_add =
                       [(USE_WAYPOINT, Some (waypoint_name c)),
                        (DATAPLANE_MODE, Some ''ambient''),
                        (MANAGED_BY, Some (app_identity c))]
                 in (es @ patch_namespace patch_ok
                            (dict_update (as_patch existing_labels) labels_to_add), None))))"

definition remove_labels :: "charm \<Rightarrow> Namespace option \<Rightarrow> bool \<Rightarrow> event list \<times> error option" where
  "remove_labels c answer patch_ok =
     (case get_namespace answer of
        (es, None) \<Rightarrow> (es, Some (RuntimeError ''Error fetching namespace: None''))
      | (es, Some ns) \<Rightarrow>
          (case metadata ns of
             None \<Rightarrow> (es, None)
           | Some md \<Rightarrow>
               (case labels md of
                  None \<Rightarrow> (es, None)
                | Some ls \<Rightarrow>
                    if ls = [] then (es, None)
                    else if map_of ls MANAGED_BY \<noteq> Some (app_identity c)
                    then (es @ [Log LWarning ''Cannot remove labels: Namespace has Istio labels managed by another entity.''], None)
                    else
                      (let labels_to_remove =
                             [(USE_WAYPOINT, None),
                              (DATAPLANE_MODE, None),
                              (MANAGED_BY, None)]
                       in (es @ patch_namespace patch_ok
                                  (dict_update (as_patch ls) labels_to_remove), None)))))"

text \<open>The bodies of the namespace patches a trace sends, and whether it logs at a level.\<close>

fun patch_of :: "event \<Rightarrow> label_patch option" where
  "patch_of (PatchNamespace body) = Some body"
| "patch_of _ = None"

definition patches :: "event list \<Rightarrow> label_patch list" where
  "patches es = List.map_filter patch_of es"

fun is_log :: "log_level \<Rightarrow> event \<Rightarrow> bool" where
  "is_log lvl (Log l msg) = (l = lvl)"
| "is_log lvl _ = False"

definition logged :: "log_level \<Rightarrow> event list \<Rightarrow> bool" where
  "logged lvl es = list_ex (is_log lvl) es"

text \<open>
  What a patch does to the labels of the namespace on the cluster (the merge semantics of
  the Kubernetes API, which the source relies on by sending \<^verbatim>\<open>None\<close> for a label): a label
  sent with a value is set, a label sent as null is removed, a label not sent is kept.
\<close>

definition apply_label_patch :: "label_patch \<Rightarrow> (string \<rightharpoonup> string) \<Rightarrow> (string \<rightharpoonup> string)" where
  "apply_label_patch body cur =
     (\<lambda>k. case map_of body k of None \<Rightarrow> cur k | Some None \<Rightarrow> None | Some (Some v) \<Rightarrow> Some v)"

text \<open>The labels of a fetched namespace, \<open>[]\<close> when it has none.\<close>

definition labels_of :: "Namespace \<Rightarrow> labels" where
  "labels_of ns =
     (case metadata ns of None \<Rightarrow> [] | Some md \<Rightarrow> (case labels md of None \<Rightarrow> [] | Some ls \<Rightarrow> ls))"

section \<open>IdentityNaming: peer identities, hashes and policy names\<close>

text \<open>
  Modelled from the spec: \<^verbatim>\<open>MeshPolicy\<close> and its \<^verbatim>\<open>Endpoint\<close> are pydantic models declared in
  the charm library \<^verbatim>\<open>charms.istio_beacon_k8s.v0.service_mesh\<close>, which is not among the
  source files. The spec's PolicyIntent gives the fields the source reads: the source
  application and namespace, the target application, an optional target service, and an
  ordered list of endpoint descriptors, each with optional lists of hosts, ports, methods
  and paths (ports are integers, the others strings).
\<close>

record Endpoint =
  hosts :: "string list option"
  ports :: "int list option"
  methods :: "string list option"
  paths :: "string list option"

record MeshPolicy =
  source_app_name :: string
  source_namespace :: string
  target_app_name :: string
  target_service :: "string option"
  endpoints :: "Endpoint list"

text \<open>\<^verbatim>\<open>_get_peer_identity_for_service_account\<close> and \<^verbatim>\<open>_get_peer_identity_for_juju_application\<close>\<close>

definition get_peer_identity_for_service_account :: "string \<Rightarrow> string \<Rightarrow> string" where
  "get_peer_identity_for_service_account service_account ns =
     ''cluster.local/ns/'' @ ns @ ''/sa/'' @ service_account"

definition get_peer_identity_for_juju_application :: "string \<Rightarrow> string \<Rightarrow> string" where
  "get_peer_identity_for_juju_application app ns =
     (let service_account = app
      in get_peer_identity_for_service_account service_account ns)"

text \<open>
  \<^verbatim>\<open>_hash_pydantic_model\<close> is \<^verbatim>\<open>hashlib.sha256(str(model).encode()).hexdigest()\<close>. SHA-256 and
  pydantic's \<^verbatim>\<open>__str__\<close> are library code: their composition is the parameter \<open>sha256_str\<close>,
  which gives the 256-bit digest of a model. \<open>hexdigest\<close> writes a digest as 64 lower-case
  hexadecimal digits, most significant first.
\<close>

definition hexdigest :: "256 word \<Rightarrow> string" where
  "hexdigest w =
     map (\<lambda>i. ''0123456789abcdef'' ! unat (and (drop_bit (4 * (63 - i)) w) 15)) [0..<64]"

definition hash_pydantic_model :: "('m \<Rightarrow> 256 word) \<Rightarrow> 'm \<Rightarrow> string" where
  "hash_pydantic_model sha256_str model = hexdigest (sha256_str model)"

text \<open>\<^verbatim>\<open>sep.join(parts)\<close>\<close>

fun str_join :: "string \<Rightarrow> string list \<Rightarrow> string" where
  "str_join sep [] = []"
| "str_join sep [x] = x"
| "str_join sep (x # y # ys) = x @ sep @ str_join sep (y # ys)"

text \<open>\<^verbatim>\<open>_generate_authorization_policy_name\<close>; \<^verbatim>\<open>s[:n]\<close> is \<open>take n s\<close>.\<close>

definition generate_authorization_policy_name ::
  "(MeshPolicy \<Rightarrow> 256 word) \<Rightarrow> charm \<Rightarrow> MeshPolicy \<Rightarrow> string" where
  "generate_authorization_policy_name sha256_str c mesh_policy =
     (let name = str_join ''-''
            [app_name c,
             model_name c,
             ''policy'',
             source_app_name mesh_policy,
             source_namespace mesh_policy,
             target_app_name mesh_policy,
             take 8 (hash_pydantic_model sha256_str mesh_policy)]
      in if length name > 253
         then str_join ''-''
            [app_name c,
             model_name c,
             ''policy'',
             take 30 (source_app_name mesh_policy),
             take 30 (source_namespace mesh_policy),
             take 30 (target_app_name mesh_policy),
             take 8 (hash_pydantic_model sha256_str mesh_policy)]
         else name)"

section \<open>PolicyBuilder: \<^verbatim>\<open>_build_authorization_policies\<close>\<close>

text \<open>Python's \<^verbatim>\<open>str\<close> of an integer: its decimal digits, with a minus sign when negative.\<close>

function str_nat :: "nat \<Rightarrow> string" where
  "str_nat n =
     (if n < 10 then [''0123456789'' ! n]
      else str_nat (n div 10) @ [''0123456789'' ! (n mod 10)])"
  by pat_completeness auto
termination
  by (relation "measure (\<lambda>n. n)") auto

declare str_nat.simps [simp del]

definition str_int :: "int \<Rightarrow> string" where
  "str_int i = (if i < 0 then ''-'' @ str_nat (nat (- i)) else str_nat (nat i))"

text \<open>
  The spec of a policy is built from the pydantic models of \<^verbatim>\<open>src/models.py\<close> and dumped
  at once with \<^verbatim>\<open>model_dump(by_alias=True, exclude_unset=True, exclude_none=True)\<close>. The
  dump lists the fields in the order the model declares them; a field the constructor
  call does not pass is unset and left out (\<^verbatim>\<open>action\<close>, \<^verbatim>\<open>namespace\<close>, \<^verbatim>\<open>when\<close>,
  \<^verbatim>\<open>notPrincipals\<close>, \<^verbatim>\<open>notHosts\<close>, \<^verbatim>\<open>notMethods\<close>, \<^verbatim>\<open>notPaths\<close>); a field passed as
  \<^verbatim>\<open>None\<close> is left out too; any other value, the empty list included, is written.
\<close>

definition strs :: "string list \<Rightarrow> json" where
  "strs xs = JArr (map JStr xs)"

text \<open>An optional field that the call passes: left out when it is \<^verbatim>\<open>None\<close>.\<close>

definition passed :: "string \<Rightarrow> string list option \<Rightarrow> (string \<times> json) list" where
  "passed k v = (case v of None \<Rightarrow> [] | Some xs \<Rightarrow> [(k, strs xs)])"

text \<open>
  \<^verbatim>\<open>Operation(ports=[str(p) for p in endpoint.ports] if endpoint.ports else [],
  hosts=endpoint.hosts, methods=endpoint.methods, paths=endpoint.paths)\<close>, dumped.
  \<^verbatim>\<open>endpoint.ports\<close> is falsy when it is \<^verbatim>\<open>None\<close> or empty.
\<close>

definition dump_Operation :: "Endpoint \<Rightarrow> json" where
  "dump_Operation endpoint =
     (let ports_arg =
            (case ports endpoint of
               None \<Rightarrow> []
             | Some ps \<Rightarrow> if ps \<noteq> [] then map str_int ps else [])
      in JObj (passed ''hosts'' (hosts endpoint)
               @ passed ''ports'' (Some ports_arg)
               @ passed ''methods'' (methods endpoint)
               @ passed ''paths'' (paths endpoint)))"

definition dump_To :: "Endpoint \<Rightarrow> json" where
  "dump_To endpoint = JObj [(''operation'', dump_Operation endpoint)]"

text \<open>\<^verbatim>\<open>policy.target_service or policy.target_app_name\<close>: the empty string is falsy.\<close>

definition target_service_or_app :: "MeshPolicy \<Rightarrow> string" where
  "target_service_or_app policy =
     (case target_service policy of
        None \<Rightarrow> target_app_name policy
      | Some s \<Rightarrow> if s \<noteq> [] then s else target_app_name policy)"

definition AuthorizationPolicySpec_dump :: "charm \<Rightarrow> MeshPolicy \<Rightarrow> json" where
  "AuthorizationPolicySpec_dump c policy =
     JObj
       [(''targetRefs'',
           JArr [JObj [(''group'', JStr []),
                       (''kind'', JStr ''Service''),
                       (''name'', JStr (target_service_or_app policy))]]),
        (''rules'',
           JArr [JObj
             [(''from'',
                 JArr [JObj [(''source'',
                   JObj [(''principals'',
                     strs [get_peer_identity_for_juju_application
                             (source_app_name policy) (model_name c)])])]]),
              (''to'', JArr (map dump_To (endpoints policy)))]])]"

definition authorization_policy ::
  "(MeshPolicy \<Rightarrow> 256 word) \<Rightarrow> charm \<Rightarrow> MeshPolicy \<Rightarrow> k8s_object" where
  "authorization_policy sha256_str c policy =
     \<lparr>obj_kind = ''AuthorizationPolicy'',
      obj_name = generate_authorization_policy_name sha256_str c policy,
      obj_namespace = model_name c,
      obj_labels = None,
      obj_spec = AuthorizationPolicySpec_dump c policy\<rparr>"

text \<open>
  The loop of \<^verbatim>\<open>_build_authorization_policies\<close>: the result list starts as
  \<^verbatim>\<open>[None] * len(mesh_info)\<close> and the \<open>i\<close>-th pass stores the policy of the \<open>i\<close>-th intent at
  index \<open>i\<close>, logging when the intent has no target service.
\<close>

definition build_step ::
  "(MeshPolicy \<Rightarrow> 256 word) \<Rightarrow> charm \<Rightarrow> nat \<times> MeshPolicy
   \<Rightarrow> event list \<times> k8s_object option list \<Rightarrow> event list \<times> k8s_object option list" where
  "build_step sha256_str c ip acc =
     (case ip of (i, policy) \<Rightarrow>
        (case acc of (es, authorization_policies) \<Rightarrow>
           (es @ (if target_service policy = None
                  then [Log LInfo ''Got policy for application that has no target_service. Defaulting to application name.'']
                  else []),
            authorization_policies[i := Some (authorization_policy sha256_str c policy)])))"

definition build_authorization_policies ::
  "(MeshPolicy \<Rightarrow> 256 word) \<Rightarrow> charm \<Rightarrow> MeshPolicy list
   \<Rightarrow> event list \<times> k8s_object option list" where
  "build_authorization_policies sha256_str c mesh_info =
     fold (build_step sha256_str c) (enumerate 0 mesh_info)
       ([], replicate (length mesh_info) None)"

text \<open>Reading a dumped spec: a field of an object, the items of a list.\<close>

fun field :: "string \<Rightarrow> json \<Rightarrow> json option" where
  "field k (JObj kvs) = map_of kvs k"
| "field k _ = None"

fun items :: "json \<Rightarrow> json list" where
  "items (JArr xs) = xs"
| "items _ = []"

text \<open>The destination-match entries of a policy: the \<^verbatim>\<open>to\<close> list of its first rule.\<close>

definition to_entries :: "k8s_object \<Rightarrow> json list" where
  "to_entries r =
     (case field ''rules'' (obj_spec r) of
        Some (JArr (rule # _)) \<Rightarrow> (case field ''to'' rule of Some t \<Rightarrow> items t | None \<Rightarrow> [])
      | _ \<Rightarrow> [])"

text \<open>The \<^verbatim>\<open>operation\<close> of a destination-match entry.\<close>

definition operation_of :: "json \<Rightarrow> json" where
  "operation_of t = (case field ''operation'' t of Some op \<Rightarrow> op | None \<Rightarrow> JObj [])"

section \<open>ReconcileEngine\<close>

text \<open>
  Modelled from the spec: the reconciler is \<^verbatim>\<open>KubernetesResourceManager.reconcile\<close> of the
  library \<^verbatim>\<open>lightkube_extensions\<close>, which is not among the source files, and so is
  \<^verbatim>\<open>create_charm_default_labels\<close>, which gives the label set of an ownership scope. The spec
  (4.1): list the cluster objects matching the scope's label selector, the currently
  owned set; create each desired object if it is absent by identity (kind, name,
  namespace) and replace it otherwise; delete each currently owned object whose identity
  is not among the desired ones. An object written under a scope carries the scope's
  labels, which is what makes it owned at the next call. The cluster is the list of its
  objects.
\<close>

definition ident :: "k8s_object \<Rightarrow> string \<times> string \<times> string" where
  "ident ob = (obj_kind ob, obj_name ob, obj_namespace ob)"

definition labels_or_empty :: "k8s_object \<Rightarrow> labels" where
  "labels_or_empty ob = (case obj_labels ob of None \<Rightarrow> [] | Some ls \<Rightarrow> ls)"

definition in_scope :: "labels \<Rightarrow> k8s_object \<Rightarrow> bool" where
  "in_scope scope ob = list_all (\<lambda>(k, v). map_of (labels_or_empty ob) k = Some v) scope"

definition stamp :: "labels \<Rightarrow> k8s_object \<Rightarrow> k8s_object" where
  "stamp scope ob = ob\<lparr>obj_labels := Some (dict_update (labels_or_empty ob) scope)\<rparr>"

definition apply_object :: "k8s_object \<Rightarrow> k8s_object list \<Rightarrow> k8s_object list" where
  "apply_object d objs =
     (if list_ex (\<lambda>ob. ident ob = ident d) objs
      then map (\<lambda>ob. if ident ob = ident d then d else ob) objs
      else objs @ [d])"

definition reconcile :: "labels \<Rightarrow> k8s_object list \<Rightarrow> k8s_object list \<Rightarrow> k8s_object list" where
  "reconcile scope desired objs =
     (let owned = filter (in_scope scope) objs;
          applied = fold apply_object (map (stamp scope) desired) objs
      in filter (\<lambda>ob. \<not> (ident ob \<in> set (map ident owned)
                          \<and> ident ob \<notin> set (map ident desired))) applied)"

section \<open>Orchestrator: \<^verbatim>\<open>_sync_all_resources\<close>\<close>

text \<open>
  What one run of the charm reads from outside: the two library functions taken as
  parameters, leadership, the three configuration values, the intents of the related
  applications, and the answers of the cluster and of the Pebble container.
\<close>

record env =
  sha256_str :: "MeshPolicy \<Rightarrow> 256 word"
  create_charm_default_labels :: "string \<Rightarrow> string \<Rightarrow> string \<Rightarrow> labels"
  is_leader :: bool
  ready_timeout :: int
  model_on_mesh :: bool
  manage_authorization_policies :: bool
  mesh_info :: "MeshPolicy list"
  namespace_answer :: "Namespace option"
  patch_ok :: bool
  deployment_answer :: "nat \<Rightarrow> get_result"
  can_connect :: bool
  replan_ok :: bool

definition AUTHORIZATION_POLICY_LABEL :: string where
  "AUTHORIZATION_POLICY_LABEL = ''istio-authorization-policy''"

definition WAYPOINT_LABEL :: string where
  "WAYPOINT_LABEL = ''istio-waypoint''"

text \<open>The scopes of the two resource managers.\<close>

definition authorization_policy_scope :: "env \<Rightarrow> charm \<Rightarrow> labels" where
  "authorization_policy_scope e c =
     create_charm_default_labels e (app_name c) (model_name c) AUTHORIZATION_POLICY_LABEL"

definition waypoint_scope :: "env \<Rightarrow> charm \<Rightarrow> labels" where
  "waypoint_scope e c =
     create_charm_default_labels e (app_name c) (model_name c) WAYPOINT_LABEL"

definition telemetry_labels :: "charm \<Rightarrow> labels" where
  "telemetry_labels c =
     [(''charms.canonical.com/'' @ model_name c @ ''.'' @ app_name c @ ''.telemetry'',
       ''aggregated'')]"

text \<open>\<^verbatim>\<open>format_labels\<close>\<close>

definition format_labels :: "labels \<Rightarrow> string" where
  "format_labels label_dict = str_join '','' (map (\<lambda>(k, v). k @ ''='' @ v) label_dict)"

text \<open>\<^verbatim>\<open>_setup_proxy_pebble_service\<close>: a \<^verbatim>\<open>ChangeError\<close> of the replan is logged.\<close>

definition setup_proxy_pebble_service :: "env \<Rightarrow> charm \<Rightarrow> event list" where
  "setup_proxy_pebble_service e c =
     (if \<not> can_connect e then []
      else [AddLayer (''metrics-proxy --labels '' @ format_labels (telemetry_labels c)), Replan]
           @ (if replan_ok e then []
              else [Log LError ''Error while replanning proxy container'']))"

text \<open>\<^verbatim>\<open>_construct_waypoint\<close>: the Gateway, its spec dumped with every field.\<close>

definition construct_waypoint :: "charm \<Rightarrow> k8s_object" where
  "construct_waypoint c =
     \<lparr>obj_kind = ''Gateway'',
      obj_name = waypoint_name c,
      obj_namespace = model_name c,
      obj_labels = Some ((''istio.io/waypoint-for'', ''all'') # telemetry_labels c),
      obj_spec =
        JObj [(''gatewayClassName'', JStr ''istio-waypoint''),
              (''listeners'',
                 JArr [JObj [(''name'', JStr ''mesh''),
                             (''port'', JInt 15008),
                             (''protocol'', JStr ''HBONE''),
                             (''allowedRoutes'',
                                JObj [(''namespaces'', JObj [(''from'', JStr ''All'')])])]])]\<rparr>"

text \<open>
  A step of the run gives its trace, the exception that ended it (if any) and the
  objects of the cluster after it.
\<close>

type_synonym run = "(event list \<times> error option) \<times> k8s_object list"

text \<open>
  \<^verbatim>\<open>_sync_authorization_policies\<close>. The list the loop built holds no \<^verbatim>\<open>None\<close> any more
  (\<open>build_leaves_no_None\<close> below), so handing it to the reconciler keeps every entry.
\<close>

definition sync_authorization_policies :: "env \<Rightarrow> charm \<Rightarrow> k8s_object list \<Rightarrow> run" where
  "sync_authorization_policies e c objs =
     (let scope = authorization_policy_scope e c;
          (es, authorization_policies) =
            (if manage_authorization_policies e
             then (let (bs, aps) = build_authorization_policies (sha256_str e) c (mesh_info e)
                   in (bs @ [Log LDebug ''Reconciling state of AuthorizationPolicies to:'',
                             Log LDebug ''(the list of policies)''],
                       List.map_filter (\<lambda>x. x) aps))
             else ([Log LDebug ''AuthorizationPolicies creation is disabled - reconciling to no Authorization Policies.''],
                   []))
      in ((es @ [Reconcile scope authorization_policies], None),
          reconcile scope authorization_policies objs))"

text \<open>\<^verbatim>\<open>_sync_waypoint_resources\<close>: the waypoint is reconciled, then the labels are synced.\<close>

definition sync_waypoint_resources :: "env \<Rightarrow> charm \<Rightarrow> k8s_object list \<Rightarrow> run" where
  "sync_waypoint_resources e c objs =
     (let resources_list = [] @ [construct_waypoint c];
          scope = waypoint_scope e c;
          objs' = reconcile scope resources_list objs;
          (es, err) =
            (if model_on_mesh e then add_labels c (namespace_answer e) (patch_ok e)
             else remove_labels c (namespace_answer e) (patch_ok e))
      in ((Reconcile scope resources_list # es, err), objs'))"

definition NOT_READY :: error where
  "NOT_READY = RuntimeError ''Waypoint's k8s deployment not ready, is istio properly installed?''"

definition sync_all_resources :: "env \<Rightarrow> charm \<Rightarrow> k8s_object list \<Rightarrow> run" where
  "sync_all_resources e c objs =
     (if \<not> is_leader e
      then (([SetStatus (BlockedStatus ''Waypoint can only be provided on the leader unit.'')],
             None), objs)
      else
        (let es0 = [SetStatus (MaintenanceStatus ''Validating waypoint readiness'')];
             ((es1, err1), objs1) = sync_waypoint_resources e c objs
         in case err1 of
              Some ex \<Rightarrow> ((es0 @ es1, Some ex), objs1)
            | None \<Rightarrow>
                (let (es2, ready) = is_waypoint_ready (ready_timeout e) (deployment_answer e)
                 in if \<not> ready then ((es0 @ es1 @ es2, Some NOT_READY), objs1)
                    else
                      (let es3 = setup_proxy_pebble_service e c;
                           es4 = [SetStatus (MaintenanceStatus ''Updating AuthorizationPolicies'')];
                           ((es5, err5), objs2) = sync_authorization_policies e c objs1
                       in case err5 of
                            Some ex \<Rightarrow> ((es0 @ es1 @ es2 @ es3 @ es4 @ es5, Some ex), objs2)
                          | None \<Rightarrow>
                              ((es0 @ es1 @ es2 @ es3 @ es4 @ es5 @ [SetStatus ActiveStatus],
                                None), objs2)))))"

text \<open>The reconcile calls of a trace, in order: the scope and the desired list of each.\<close>

fun reconcile_of :: "event \<Rightarrow> (labels \<times> k8s_object list) option" where
  "reconcile_of (Reconcile scope desired) = Some (scope, desired)"
| "reconcile_of _ = None"

definition reconciles :: "event list \<Rightarrow> (labels \<times> k8s_object list) list" where
  "reconciles es = List.map_filter reconcile_of es"

text \<open>Whether a trace touches the namespace object at all (a get or a patch).\<close>

fun is_namespace_call :: "event \<Rightarrow> bool" where
  "is_namespace_call GetNamespace = True"
| "is_namespace_call (PatchNamespace body) = True"
| "is_namespace_call _ = False"

text \<open>
  The label step of a run, as \<^verbatim>\<open>_sync_waypoint_resources\<close> performs it: claim when
  \<^verbatim>\<open>model-on-mesh\<close> is set, release otherwise.
\<close>

definition label_step :: "env \<Rightarrow> charm \<Rightarrow> event list \<times> error option" where
  "label_step e c =
     (if model_on_mesh e then add_labels c (namespace_answer e) (patch_ok e)
      else remove_labels c (namespace_answer e) (patch_ok e))"

section \<open>Example inputs\<close>

text \<open>The charm of the spec's examples, application \<open>beacon\<close> in model \<open>mymodel\<close>.\<close>

definition c_ex :: charm where
  "c_ex = \<lparr>app_name = ''beacon'', model_name = ''mymodel''\<rparr>"

text \<open>A fetched namespace that carries the given labels.\<close>

definition namespace_with :: "labels \<Rightarrow> Namespace" where
  "namespace_with ls = \<lparr>metadata = Some \<lparr>labels = Some ls\<rparr>\<rparr>"

text \<open>The intent of the spec's example: \<open>app-a\<close> in \<open>ns1\<close> may reach \<open>app-b\<close> on port 80.\<close>

definition intent_ex :: MeshPolicy where
  "intent_ex =
     \<lparr>source_app_name = ''app-a'', source_namespace = ''ns1'', target_app_name = ''app-b'',
      target_service = None,
      endpoints = [\<lparr>hosts = Some [], ports = Some [80], methods = Some [],
                    paths = Some [''/x'']\<rparr>]\<rparr>"

text \<open>Two variants of it: a target service that is the empty string, and an endpoint
  without any list.\<close>

definition intent_empty_service :: MeshPolicy where
  "intent_empty_service = intent_ex\<lparr>target_service := Some []\<rparr>"

definition intent_no_lists :: MeshPolicy where
  "intent_no_lists =
     intent_ex\<lparr>endpoints := [\<lparr>hosts = None, ports = None, methods = None, paths = None\<rparr>]\<rparr>"

text \<open>A stand-in for the digest of an intent, and two series of answers of the cluster.\<close>

definition sha_ex :: "MeshPolicy \<Rightarrow> 256 word" where
  "sha_ex p = of_nat (length (source_app_name p @ source_namespace p @ target_app_name p))"

definition never_found :: "nat \<Rightarrow> get_result" where
  "never_found i = ApiError"

definition counts_absent_at_second_read :: "nat \<Rightarrow> get_result" where
  "counts_absent_at_second_read i =
     (if i = 1 then Deployment (Some \<lparr>readyReplicas = None, replicas = None\<rparr>) else ApiError)"

text \<open>
  A run on the leader with every feature on: the namespace carries no labels, the
  Deployment is ready at the first read, and the timeout is 30 seconds.
\<close>

definition env_ex :: env where
  "env_ex =
     \<lparr>sha256_str = sha_ex,
      create_charm_default_labels =
        (\<lambda>app model scope. [(''instance'', app @ ''-'' @ model), (''scope'', scope)]),
      is_leader = True,
      ready_timeout = 30,
      model_on_mesh = True,
      manage_authorization_policies = True,
      mesh_info = [intent_ex],
      namespace_answer = Some (namespace_with []),
      patch_ok = True,
      deployment_answer = (\<lambda>i. Deployment (Some \<lparr>readyReplicas = Some 1, replicas = Some 1\<rparr>)),
      can_connect = True,
      replan_ok = True\<rparr>"

text \<open>
  Variants of the run: the Deployment is never found; the unit is not the leader and the
  timeout is 5; the timeout is 9; the policies are switched off.
\<close>

definition env_never_found :: env where
  "env_never_found = env_ex\<lparr>deployment_answer := never_found\<rparr>"

definition env_follower :: env where
  "env_follower = env_ex\<lparr>ready_timeout := 5, is_leader := False\<rparr>"

definition env_short_timeout :: env where
  "env_short_timeout = env_ex\<lparr>ready_timeout := 9\<rparr>"

definition env_policies_off :: env where
  "env_policies_off = env_ex\<lparr>manage_authorization_policies := False\<rparr>"

text \<open>
  A cluster that holds the waypoint and three policies written earlier under the
  policy scope of the example run.
\<close>

definition prior_policy :: "string \<Rightarrow> k8s_object" where
  "prior_policy n =
     \<lparr>obj_kind = ''AuthorizationPolicy'', obj_name = n, obj_namespace = ''mymodel'',
      obj_labels = Some [(''instance'', ''beacon-mymodel''),
                         (''scope'', ''istio-authorization-policy'')],
      obj_spec = JObj []\<rparr>"

definition cluster_ex :: "k8s_object list" where
  "cluster_ex =
     [stamp [(''instance'', ''beacon-mymodel''), (''scope'', ''istio-waypoint'')]
        (construct_waypoint c_ex),
      prior_policy ''p1'', prior_policy ''p2'', prior_policy ''p3'']"



section \<open>Properties of the readiness gate\<close>

lemma poll_loop_ready_iff:
  "snd (poll_loop get ci xs) \<longleftrightarrow>
     (\<exists>i s. i \<in> set xs \<and> get i = Deployment (Some s) \<and> readyReplicas s = replicas s)"
proof (induction xs)
  case Nil
  show ?case by simp
next
  case (Cons i rest)
  show ?case
  proof (cases "get i")
    case ApiError
    with Cons show ?thesis by (auto split: prod.splits)
  next
    case (Deployment st)
    show ?thesis
    proof (cases st)
      case None
      with Deployment Cons show ?thesis by (auto simp: status_ready_def split: prod.splits)
    next
      case (Some s)
      with Deployment Cons show ?thesis by (auto simp: status_ready_def split: prod.splits)
    qed
  qed
qed

lemma poll_loop_polls_le: "polls (fst (poll_loop get ci xs)) \<le> length xs"
  by (induction xs) (auto simp: polls_def split: prod.splits get_result.splits)

lemma poll_loop_stops:
  "get i = Deployment (Some s) \<Longrightarrow> readyReplicas s = replicas s
   \<Longrightarrow> polls (fst (poll_loop get ci (pre @ i # post))) \<le> Suc (length pre)"
  by (induction pre) (auto simp: polls_def status_ready_def split: prod.splits get_result.splits)

lemma poll_loop_no_namespace_call: "\<not> list_ex is_namespace_call (fst (poll_loop get ci xs))"
  by (induction xs) (auto split: prod.splits get_result.splits)

text \<open>
  Claim C7. The readiness wait reads the Deployment at most \<open>timeout div 10\<close> times (the
  poll interval is the constant 10; no read at all when that quotient is not positive),
  so at most 3 times for a timeout of 30. It returns true exactly when one of the reads
  it is allowed finds a status whose ready-replica count equals its replica count; an
  \<^verbatim>\<open>ApiError\<close> (workload not found) and an absent status are not-yet-ready answers, and
  when no read reports ready the value is \<open>False\<close>. The wait is a total function to a
  trace and a boolean: no answer of the cluster makes it raise.
\<close>

theorem readiness_wait_bounded:
  "int (polls (fst (is_waypoint_deployment_ready t get))) \<le> max 0 (t div 10)
   \<and> polls (fst (is_waypoint_deployment_ready 30 get)) \<le> 3
   \<and> (snd (is_waypoint_deployment_ready t get) \<longleftrightarrow>
        (\<exists>i s. int i < t div 10 \<and> get i = Deployment (Some s)
               \<and> readyReplicas s = replicas s))"
proof -
  have a: "polls (fst (is_waypoint_deployment_ready t get)) \<le> nat (t div 10)" for t
    using poll_loop_polls_le [of get 10 "py_range (t div 10)"]
    by (simp add: is_waypoint_deployment_ready_def py_range_def)
  have b: "snd (is_waypoint_deployment_ready t get) \<longleftrightarrow>
        (\<exists>i s. int i < t div 10 \<and> get i = Deployment (Some s) \<and> readyReplicas s = replicas s)"
    unfolding is_waypoint_deployment_ready_def Let_def poll_loop_ready_iff py_range_def
    by (auto simp: nat_less_iff zless_nat_eq_int_zless)
  from a [of t] a [of 30] b show ?thesis by simp
qed

text \<open>
  Claim C10. When a read that the wait is allowed (\<open>i < timeout div 10\<close>) finds the status
  present with both the ready-replica count and the replica count absent, the check
  judges that status ready (\<^verbatim>\<open>None == None\<close>), the wait returns true, and it has read the
  Deployment at most \<open>i + 1\<close> times: it stops at that read or before.
\<close>

theorem absent_counts_judged_ready:
  assumes "int i < t div 10" and "get i = Deployment (Some s)"
    and "readyReplicas s = None" and "replicas s = None"
  shows "status_ready (Some s) \<and> snd (is_waypoint_deployment_ready t get)
         \<and> polls (fst (is_waypoint_deployment_ready t get)) \<le> Suc i"
proof -
  from assms(1) have lt: "i < nat (t div 10)" by linarith
  have eq: "readyReplicas s = replicas s" using assms(3,4) by simp
  have split: "[0..<nat (t div 10)] = [0..<i] @ i # [Suc i..<nat (t div 10)]"
  proof -
    have "[0..<nat (t div 10)] = [0..<i] @ [i..<nat (t div 10)]"
      using lt upt_add_eq_append [of 0 i "nat (t div 10) - i"] by simp
    then show ?thesis using lt by (simp add: upt_conv_Cons)
  qed
  have "snd (poll_loop get 10 [0..<nat (t div 10)])"
    unfolding poll_loop_ready_iff using lt assms(2) eq by auto
  moreover have "polls (fst (poll_loop get 10 [0..<nat (t div 10)])) \<le> Suc i"
    using poll_loop_stops [of get i s 10 "[0..<i]" "[Suc i..<nat (t div 10)]"] assms(2) eq split
    by simp
  ultimately show ?thesis
    using eq by (simp add: is_waypoint_deployment_ready_def py_range_def status_ready_def)
qed

theorem absent_counts_judged_ready_witness:
  "snd (is_waypoint_deployment_ready 30 counts_absent_at_second_read)
   \<and> polls (fst (is_waypoint_deployment_ready 30 counts_absent_at_second_read)) \<le> 2"
  using absent_counts_judged_ready [of 1 30 counts_absent_at_second_read
      "\<lparr>readyReplicas = None, replicas = None\<rparr>"]
  by (simp add: counts_absent_at_second_read_def)

section \<open>Properties of the namespace label manager\<close>

lemma map_of_as_patch: "map_of (as_patch ls) k = map_option Some (map_of ls k)"
  by (induction ls) (auto simp: as_patch_def)

lemma managed_keys_distinct:
  "USE_WAYPOINT \<noteq> DATAPLANE_MODE" "USE_WAYPOINT \<noteq> MANAGED_BY" "DATAPLANE_MODE \<noteq> MANAGED_BY"
  by (simp_all add: USE_WAYPOINT_def DATAPLANE_MODE_def MANAGED_BY_def)

lemma map_of_dict_update3:
  "map_of (dict_update d [(k1, v1), (k2, v2), (k3, v3)]) =
     (map_of d)(k1 \<mapsto> v1, k2 \<mapsto> v2, k3 \<mapsto> v3)"
  by (simp add: dict_update_def update_conv')

lemma patches_Nil: "patches [] = []"
  by (simp add: patches_def List.map_filter_simps)

lemma patches_Cons:
  "patches (e # es) = (case patch_of e of None \<Rightarrow> patches es | Some b \<Rightarrow> b # patches es)"
  by (simp add: patches_def List.map_filter_simps split: option.splits)

lemma patches_append: "patches (xs @ ys) = patches xs @ patches ys"
  by (simp add: patches_def List.map_filter_def)

lemma patches_patch_namespace: "patches (patch_namespace ok body) = [body]"
  by (simp add: patch_namespace_def patches_Cons patches_Nil)

text \<open>The two operations on a namespace that was fetched, branch by branch.\<close>

lemma add_labels_fetched:
  "add_labels c (Some ns) ok =
     (if (truthy (map_of (labels_of ns) USE_WAYPOINT)
          \<or> truthy (map_of (labels_of ns) DATAPLANE_MODE))
         \<and> map_of (labels_of ns) MANAGED_BY \<noteq> Some (app_identity c)
      then ([GetNamespace, Log LError ''Cannot add labels: Namespace is already configured with Istio labels managed by another entity.''], None)
      else (GetNamespace # patch_namespace ok
              (dict_update (as_patch (labels_of ns))
                 [(USE_WAYPOINT, Some (waypoint_name c)),
                  (DATAPLANE_MODE, Some ''ambient''),
                  (MANAGED_BY, Some (app_identity c))]), None))"
  by (auto simp: add_labels_def get_namespace_def labels_of_def split: option.splits)

lemma remove_labels_fetched:
  "remove_labels c (Some ns) ok =
     (if labels_of ns = [] then ([GetNamespace], None)
      else if map_of (labels_of ns) MANAGED_BY \<noteq> Some (app_identity c)
      then ([GetNamespace, Log LWarning ''Cannot remove labels: Namespace has Istio labels managed by another entity.''], None)
      else (GetNamespace # patch_namespace ok
              (dict_update (as_patch (labels_of ns))
                 [(USE_WAYPOINT, None), (DATAPLANE_MODE, None), (MANAGED_BY, None)]), None))"
  by (auto simp: remove_labels_def get_namespace_def labels_of_def split: option.splits)

text \<open>
  Claim C1, as amended. For every fetched namespace, the claim operation refuses (it logs
  an error, sends no patch and returns normally) exactly when \<^verbatim>\<open>use-waypoint\<close> or
  \<^verbatim>\<open>dataplane-mode\<close> has a non-empty value and \<^verbatim>\<open>managed-by\<close> is absent or differs from this
  charm's identity. Otherwise it sends one patch whose body sets \<^verbatim>\<open>use-waypoint\<close> to the
  waypoint name, \<^verbatim>\<open>dataplane-mode\<close> to \<open>ambient\<close> and \<^verbatim>\<open>managed-by\<close> to the identity, and
  repeats every other label of the namespace with its value.
\<close>

theorem claim_guard:
  "let ls = labels_of ns;
       blocked = ((truthy (map_of ls USE_WAYPOINT) \<or> truthy (map_of ls DATAPLANE_MODE))
                  \<and> map_of ls MANAGED_BY \<noteq> Some (app_identity c));
       (es, err) = add_labels c (Some ns) ok
   in err = None \<and>
      (if blocked then patches es = [] \<and> logged LError es
       else (\<exists>body. patches es = [body]
               \<and> map_of body USE_WAYPOINT = Some (Some (waypoint_name c))
               \<and> map_of body DATAPLANE_MODE = Some (Some ''ambient'')
               \<and> map_of body MANAGED_BY = Some (Some (app_identity c))
               \<and> (\<forall>k. k \<notin> {USE_WAYPOINT, DATAPLANE_MODE, MANAGED_BY}
                      \<longrightarrow> map_of body k = map_option Some (map_of ls k))))"
  unfolding Let_def add_labels_fetched
  using managed_keys_distinct
  by (simp add: patches_Cons patches_Nil patches_patch_namespace map_of_dict_update3
        map_of_as_patch logged_def)

theorem claim_guard_witness:
  "\<exists>body. patches (fst (add_labels c_ex (Some (namespace_with [(''team'', ''mesh'')])) True))
             = [body]
         \<and> map_of body MANAGED_BY = Some (Some ''beacon-mymodel'')
         \<and> map_of body ''team'' = Some (Some ''mesh'')"
proof -
  have ls: "labels_of (namespace_with [(''team'', ''mesh'')]) = [(''team'', ''mesh'')]"
    by (simp add: labels_of_def namespace_with_def)
  have other: "''team'' \<notin> {USE_WAYPOINT, DATAPLANE_MODE, MANAGED_BY}"
    by (simp add: USE_WAYPOINT_def DATAPLANE_MODE_def MANAGED_BY_def)
  have unblocked:
    "\<not> ((truthy (map_of [(''team'', ''mesh'')] USE_WAYPOINT)
          \<or> truthy (map_of [(''team'', ''mesh'')] DATAPLANE_MODE))
         \<and> map_of [(''team'', ''mesh'')] MANAGED_BY \<noteq> Some (app_identity c_ex))"
    by (simp add: truthy_def USE_WAYPOINT_def DATAPLANE_MODE_def)
  have ident: "app_identity c_ex = ''beacon-mymodel''"
    by (simp add: app_identity_def c_ex_def)
  from claim_guard [of "namespace_with [(''team'', ''mesh'')]" c_ex True]
  obtain body where
    "patches (fst (add_labels c_ex (Some (namespace_with [(''team'', ''mesh'')])) True)) = [body]"
    "map_of body MANAGED_BY = Some (Some (app_identity c_ex))"
    "\<forall>k. k \<notin> {USE_WAYPOINT, DATAPLANE_MODE, MANAGED_BY}
        \<longrightarrow> map_of body k = map_option Some (map_of [(''team'', ''mesh'')] k)"
    unfolding Let_def case_prod_beta ls using unblocked by auto
  then show ?thesis using other ident by auto
qed

text \<open>
  The claim as stated fails in both directions. A namespace whose only managed key is a
  foreign \<^verbatim>\<open>managed-by\<close> is claimed all the same (the guard looks at the other two keys
  only); and a namespace with \<^verbatim>\<open>use-waypoint\<close> set and no \<^verbatim>\<open>managed-by\<close> at all, which the
  claim sends to the "otherwise" branch, is refused.
\<close>

theorem claim_guard_counterexample:
  "map_of (labels_of (namespace_with [(MANAGED_BY, ''other-owner'')])) MANAGED_BY
     = Some ''other-owner''
   \<and> ''other-owner'' \<noteq> app_identity c_ex
   \<and> patches (fst (add_labels c_ex (Some (namespace_with [(MANAGED_BY, ''other-owner'')])) True))
     = [[(MANAGED_BY, Some ''beacon-mymodel''),
         (USE_WAYPOINT, Some ''beacon-mymodel-waypoint''),
         (DATAPLANE_MODE, Some ''ambient'')]]
   \<and> map_of (labels_of (namespace_with [(USE_WAYPOINT, ''manual'')])) MANAGED_BY = None
   \<and> patches (fst (add_labels c_ex (Some (namespace_with [(USE_WAYPOINT, ''manual'')])) True))
     = []
   \<and> logged LError
       (fst (add_labels c_ex (Some (namespace_with [(USE_WAYPOINT, ''manual'')])) True))"
  by (simp add: add_labels_fetched labels_of_def namespace_with_def c_ex_def app_identity_def
        waypoint_name_def truthy_def USE_WAYPOINT_def DATAPLANE_MODE_def MANAGED_BY_def
        patches_Cons patches_Nil patches_patch_namespace logged_def dict_update_def as_patch_def)

text \<open>
  Claim C8, as amended. For every fetched namespace: when it carries no label at all
  (no metadata, no label dict, or an empty one) the release does nothing but the fetch,
  without any warning; when it carries labels and \<^verbatim>\<open>managed-by\<close> is absent or differs from
  this charm's identity, it logs a warning and sends no patch; otherwise it sends one
  patch, after which the three managed keys are gone and every other label has the
  value it had. In all three cases it returns normally.
\<close>

theorem release_guard:
  "let ls = labels_of ns;
       (es, err) = remove_labels c (Some ns) ok
   in err = None \<and>
      (if ls = [] then es = [GetNamespace]
       else if map_of ls MANAGED_BY \<noteq> Some (app_identity c)
       then patches es = [] \<and> logged LWarning es
       else (\<exists>body. patches es = [body]
               \<and> (\<forall>k. apply_label_patch body (map_of ls) k =
                       (if k \<in> {USE_WAYPOINT, DATAPLANE_MODE, MANAGED_BY} then None
                        else map_of ls k))))"
  unfolding Let_def remove_labels_fetched
  using managed_keys_distinct
  by (simp add: patches_Cons patches_Nil patches_patch_namespace map_of_dict_update3
        map_of_as_patch logged_def apply_label_patch_def split: option.splits)

theorem release_guard_witness:
  "\<exists>body. patches (fst (remove_labels c_ex
              (Some (namespace_with [(''team'', ''mesh''), (MANAGED_BY, ''beacon-mymodel'')])) True))
             = [body]
         \<and> apply_label_patch body
             (map_of [(''team'', ''mesh''), (MANAGED_BY, ''beacon-mymodel'')]) ''team''
           = Some ''mesh''
         \<and> apply_label_patch body
             (map_of [(''team'', ''mesh''), (MANAGED_BY, ''beacon-mymodel'')]) MANAGED_BY
           = None"
proof -
  have ls: "labels_of (namespace_with [(''team'', ''mesh''), (MANAGED_BY, ''beacon-mymodel'')])
            = [(''team'', ''mesh''), (MANAGED_BY, ''beacon-mymodel'')]"
    by (simp add: labels_of_def namespace_with_def)
  have other: "''team'' \<notin> {USE_WAYPOINT, DATAPLANE_MODE, MANAGED_BY}"
    by (simp add: USE_WAYPOINT_def DATAPLANE_MODE_def MANAGED_BY_def)
  have owned: "map_of [(''team'', ''mesh''), (MANAGED_BY, ''beacon-mymodel'')] MANAGED_BY
               = Some (app_identity c_ex)"
    by (simp add: app_identity_def c_ex_def MANAGED_BY_def)
  from release_guard [of "namespace_with [(''team'', ''mesh''), (MANAGED_BY, ''beacon-mymodel'')]"
      c_ex True]
  obtain body where
    "patches (fst (remove_labels c_ex
        (Some (namespace_with [(''team'', ''mesh''), (MANAGED_BY, ''beacon-mymodel'')])) True))
     = [body]"
    "\<forall>k. apply_label_patch body
           (map_of [(''team'', ''mesh''), (MANAGED_BY, ''beacon-mymodel'')]) k =
         (if k \<in> {USE_WAYPOINT, DATAPLANE_MODE, MANAGED_BY} then None
          else map_of [(''team'', ''mesh''), (MANAGED_BY, ''beacon-mymodel'')] k)"
    unfolding Let_def case_prod_beta ls using owned by auto
  then show ?thesis using other by (auto simp: MANAGED_BY_def)
qed

text \<open>
  The claim as stated fails on a namespace without labels: \<^verbatim>\<open>managed-by\<close> is absent
  there, yet the release logs no warning (it does nothing after the fetch).
\<close>

theorem release_guard_counterexample:
  "map_of (labels_of (namespace_with [])) MANAGED_BY = None
   \<and> \<not> logged LWarning (fst (remove_labels c_ex (Some (namespace_with [])) True))
   \<and> remove_labels c_ex (Some (namespace_with [])) True = ([GetNamespace], None)
   \<and> remove_labels c_ex (Some \<lparr>metadata = None\<rparr>) True = ([GetNamespace], None)"
  by (simp add: remove_labels_fetched labels_of_def namespace_with_def logged_def)

section \<open>Properties of the naming scheme\<close>





text \<open>
  The 8 characters taken from the hash are the 8 most significant hexadecimal digits of
  the digest.
\<close>

lemma hash8_digits:
  "take 8 (hexdigest w) =
     map (\<lambda>i. ''0123456789abcdef'' ! unat (and (drop_bit (4 * (63 - i)) w) 15)) [0..<8]"
  by (simp add: hexdigest_def take_map)

lemma hexdigest_example:
  "take 8 (hexdigest 0xdeadbeef00000000000000000000000000000000000000000000000000001234)
     = ''deadbeef''"
  unfolding hash8_digits by (simp add: upt_rec drop_bit_eq_div)




section \<open>Properties of the policy builder\<close>

lemma fold_build_step_snd:
  "snd (fold (build_step sha c) xs acc) =
     fold (\<lambda>ip aps. aps[fst ip := Some (authorization_policy sha c (snd ip))]) xs (snd acc)"
  by (induction xs arbitrary: acc) (auto simp: build_step_def split: prod.splits)

lemma fold_build_step_fst:
  "fst (fold (build_step sha c) xs acc) =
     fst acc @ concat (map (\<lambda>ip. if target_service (snd ip) = None
        then [Log LInfo ''Got policy for application that has no target_service. Defaulting to application name.'']
        else []) xs)"
  by (induction xs arbitrary: acc) (auto simp: build_step_def split: prod.splits)

lemma fold_fill:
  "length pre = n \<Longrightarrow> length aps = length ps \<Longrightarrow>
   fold (\<lambda>ip a. a[fst ip := f (snd ip)]) (enumerate n ps) (pre @ aps @ post)
     = pre @ map f ps @ post"
proof (induction ps arbitrary: n pre aps)
  case Nil
  then show ?case by simp
next
  case (Cons p ps)
  then obtain a aps' where aps: "aps = a # aps'" by (cases aps) auto
  have "(pre @ aps @ post)[n := f p] = (pre @ [f p]) @ aps' @ post"
    using Cons.prems(1) aps by (simp add: list_update_append)
  moreover have "length (pre @ [f p]) = Suc n" using Cons.prems(1) by simp
  moreover have "length aps' = length ps" using Cons.prems(2) aps by simp
  ultimately show ?case
    using Cons.IH [of "pre @ [f p]" "Suc n" aps'] by simp
qed

lemma build_policies:
  "snd (build_authorization_policies sha c ps) = map (\<lambda>p. Some (authorization_policy sha c p)) ps"
  using fold_fill [of "[]" 0 "replicate (length ps) None" ps "\<lambda>p. Some (authorization_policy sha c p)" "[]"]
  by (simp add: build_authorization_policies_def fold_build_step_snd)

lemma build_leaves_no_None:
  "List.map_filter (\<lambda>x. x) (snd (build_authorization_policies sha c ps))
     = map (authorization_policy sha c) ps"
  unfolding build_policies by (induction ps) (simp_all add: List.map_filter_simps)

lemma build_events_are_logs:
  "ev \<in> set (fst (build_authorization_policies sha c ps)) \<Longrightarrow> \<exists>m. ev = Log LInfo m"
  by (auto simp: build_authorization_policies_def fold_build_step_fst split: if_splits)

lemma field_passed:
  "map_of (passed k v) k' = (if k' = k then map_option strs v else None)"
  by (cases v) (simp_all add: passed_def)

lemma dump_Operation_fields:
  "field k (dump_Operation ep) =
     (if k = ''hosts'' then map_option strs (hosts ep)
      else if k = ''ports''
        then Some (strs (case ports ep of None \<Rightarrow> [] | Some ps \<Rightarrow> map str_int ps))
      else if k = ''methods'' then map_option strs (methods ep)
      else if k = ''paths'' then map_option strs (paths ep)
      else None)"
  by (auto simp: dump_Operation_def Let_def map_add_def field_passed
        split: option.splits)

lemma to_entries_policy:
  "to_entries (authorization_policy sha c p) = map dump_To (endpoints p)"
  by (simp add: to_entries_def authorization_policy_def AuthorizationPolicySpec_dump_def)

lemma operation_of_dump_To: "operation_of (dump_To ep) = dump_Operation ep"
  by (simp add: operation_of_def dump_To_def)

lemma str_int_examples: "str_int 80 = ''80''" "str_int 15008 = ''15008''" "str_int 0 = ''0''"
  by (simp_all add: str_int_def str_nat.simps)

text \<open>
  Claim C2, as amended. The policy built for the \<open>i\<close>-th intent holds one destination-match
  entry per endpoint of that intent, in order, each an object with the single key
  \<^verbatim>\<open>operation\<close>. In the operation, \<^verbatim>\<open>hosts\<close>, \<^verbatim>\<open>methods\<close> and \<^verbatim>\<open>paths\<close> carry the
  endpoint's lists verbatim and are left out when the endpoint's list is absent;
  \<^verbatim>\<open>ports\<close> is always written, as the decimal strings of the endpoint's ports, and as the
  empty list when the endpoint's ports are absent (or empty); no other key is written.
\<close>

theorem one_operation_per_endpoint:
  "\<forall>i < length ps.
     snd (build_authorization_policies sha c ps) ! i = Some (authorization_policy sha c (ps ! i))
     \<and> (let r = authorization_policy sha c (ps ! i)
        in length (to_entries r) = length (endpoints (ps ! i))
           \<and> (\<forall>j < length (endpoints (ps ! i)).
                (let ep = endpoints (ps ! i) ! j; op = operation_of (to_entries r ! j)
                 in to_entries r ! j = JObj [(''operation'', op)]
                    \<and> field ''hosts'' op = map_option (\<lambda>xs. JArr (map JStr xs)) (hosts ep)
                    \<and> field ''methods'' op = map_option (\<lambda>xs. JArr (map JStr xs)) (methods ep)
                    \<and> field ''paths'' op = map_option (\<lambda>xs. JArr (map JStr xs)) (paths ep)
                    \<and> field ''ports'' op =
                        Some (JArr (map JStr (case ports ep of None \<Rightarrow> []
                                              | Some xs \<Rightarrow> map str_int xs)))
                    \<and> (\<forall>k. k \<notin> {''hosts'', ''ports'', ''methods'', ''paths''}
                           \<longrightarrow> field k op = None))))"
  by (simp add: build_policies to_entries_policy operation_of_dump_To dump_Operation_fields
        Let_def)
     (simp add: dump_To_def strs_def [abs_def] split: option.splits)

theorem one_operation_per_endpoint_witness:
  "map (\<lambda>t. field ''ports'' (operation_of t))
       (to_entries (authorization_policy sha_ex c_ex intent_ex)) = [Some (JArr [JStr ''80''])]
   \<and> map (\<lambda>t. field ''paths'' (operation_of t))
       (to_entries (authorization_policy sha_ex c_ex intent_ex)) = [Some (JArr [JStr ''/x''])]
   \<and> map (\<lambda>t. field ''notHosts'' (operation_of t))
       (to_entries (authorization_policy sha_ex c_ex intent_ex)) = [None]"
proof -
  have eps: "endpoints intent_ex =
      [\<lparr>hosts = Some [], ports = Some [80], methods = Some [], paths = Some [''/x'']\<rparr>]"
    by (simp add: intent_ex_def)
  have one: "length (to_entries (authorization_policy sha_ex c_ex intent_ex)) = 1"
    and at0: "field ''ports'' (operation_of (to_entries (authorization_policy sha_ex c_ex intent_ex) ! 0))
              = Some (JArr [JStr (str_int 80)])"
             "field ''paths'' (operation_of (to_entries (authorization_policy sha_ex c_ex intent_ex) ! 0))
              = Some (JArr [JStr ''/x''])"
             "field ''notHosts'' (operation_of (to_entries (authorization_policy sha_ex c_ex intent_ex) ! 0))
              = None"
    using one_operation_per_endpoint [of "[intent_ex]" sha_ex c_ex]
    by (simp_all add: Let_def eps)
  from one obtain t where t: "to_entries (authorization_policy sha_ex c_ex intent_ex) = [t]"
    by (cases "to_entries (authorization_policy sha_ex c_ex intent_ex)") auto
  from at0 show ?thesis unfolding t by (simp add: str_int_examples)
qed

text \<open>
  The claim as stated fails for the ports: an endpoint whose four lists are all absent
  yields an operation with \<^verbatim>\<open>ports\<close> set to the empty list, not an operation without
  \<^verbatim>\<open>ports\<close>.
\<close>

theorem one_operation_per_endpoint_counterexample:
  "map ports (endpoints intent_no_lists) = [None]
   \<and> map operation_of (to_entries (authorization_policy sha_ex c_ex intent_no_lists))
     = [JObj [(''ports'', JArr [])]]"
  by (simp add: to_entries_policy operation_of_dump_To dump_Operation_def passed_def strs_def
        intent_no_lists_def)

lemma policy_target_refs:
  "field ''targetRefs'' (obj_spec (authorization_policy sha c p)) =
     Some (JArr [JObj [(''group'', JStr []), (''kind'', JStr ''Service''),
                       (''name'', JStr (target_service_or_app p))]])"
  by (simp add: authorization_policy_def AuthorizationPolicySpec_dump_def)

lemma policy_rules:
  "field ''rules'' (obj_spec (authorization_policy sha c p)) =
     Some (JArr [JObj
       [(''from'', JArr [JObj [(''source'', JObj [(''principals'',
            JArr [JStr (''cluster.local/ns/'' @ model_name c @ ''/sa/'' @ source_app_name p)])])]]),
        (''to'', JArr (map dump_To (endpoints p)))]])"
  by (simp add: authorization_policy_def AuthorizationPolicySpec_dump_def strs_def
        get_peer_identity_for_juju_application_def get_peer_identity_for_service_account_def)

text \<open>
  Claim C6, as amended. The build yields exactly one policy per intent, at the position
  of its intent (no merging, also when intents repeat). The policy of an intent carries
  the name generated for that intent and lives in the charm's model namespace; its one
  target reference is the Service named \<^verbatim>\<open>target_service\<close> when that is present and not
  the empty string, and named \<^verbatim>\<open>target_app_name\<close> otherwise; its one rule has the single
  source principal \<open>cluster.local/ns/{model}/sa/{source_app_name}\<close>, in the charm's own
  model namespace whatever the source's namespace is.
\<close>

theorem build_one_per_intent:
  "length (snd (build_authorization_policies sha c ps)) = length ps
   \<and> (\<forall>i < length ps. \<exists>r to.
         snd (build_authorization_policies sha c ps) ! i = Some r
         \<and> obj_name r = generate_authorization_policy_name sha c (ps ! i)
         \<and> obj_namespace r = model_name c
         \<and> field ''targetRefs'' (obj_spec r) =
             Some (JArr [JObj [(''group'', JStr []), (''kind'', JStr ''Service''),
                (''name'', JStr (case target_service (ps ! i) of
                                   None \<Rightarrow> target_app_name (ps ! i)
                                 | Some s \<Rightarrow> if s = [] then target_app_name (ps ! i) else s))]])
         \<and> field ''rules'' (obj_spec r) =
             Some (JArr [JObj
               [(''from'', JArr [JObj [(''source'', JObj [(''principals'',
                    JArr [JStr (''cluster.local/ns/'' @ model_name c @ ''/sa/''
                                @ source_app_name (ps ! i))])])]]),
                (''to'', to)]]))"
proof -
  have len: "length (snd (build_authorization_policies sha c ps)) = length ps"
    by (simp add: build_policies)
  have tgt: "target_service_or_app p =
      (case target_service p of None \<Rightarrow> target_app_name p
       | Some s \<Rightarrow> if s = [] then target_app_name p else s)" for p
    by (simp add: target_service_or_app_def split: option.splits)
  have "\<exists>r to. snd (build_authorization_policies sha c ps) ! i = Some r
         \<and> obj_name r = generate_authorization_policy_name sha c (ps ! i)
         \<and> obj_namespace r = model_name c
         \<and> field ''targetRefs'' (obj_spec r) =
             Some (JArr [JObj [(''group'', JStr []), (''kind'', JStr ''Service''),
                (''name'', JStr (case target_service (ps ! i) of
                                   None \<Rightarrow> target_app_name (ps ! i)
                                 | Some s \<Rightarrow> if s = [] then target_app_name (ps ! i) else s))]])
         \<and> field ''rules'' (obj_spec r) =
             Some (JArr [JObj
               [(''from'', JArr [JObj [(''source'', JObj [(''principals'',
                    JArr [JStr (''cluster.local/ns/'' @ model_name c @ ''/sa/''
                                @ source_app_name (ps ! i))])])]]),
                (''to'', to)]])"
    if "i < length ps" for i
  proof (intro exI conjI)
    show "snd (build_authorization_policies sha c ps) ! i
            = Some (authorization_policy sha c (ps ! i))"
      using that by (simp add: build_policies)
    show "obj_name (authorization_policy sha c (ps ! i))
            = generate_authorization_policy_name sha c (ps ! i)"
      by (simp add: authorization_policy_def)
    show "obj_namespace (authorization_policy sha c (ps ! i)) = model_name c"
      by (simp add: authorization_policy_def)
    show "field ''targetRefs'' (obj_spec (authorization_policy sha c (ps ! i))) =
             Some (JArr [JObj [(''group'', JStr []), (''kind'', JStr ''Service''),
                (''name'', JStr (case target_service (ps ! i) of
                                   None \<Rightarrow> target_app_name (ps ! i)
                                 | Some s \<Rightarrow> if s = [] then target_app_name (ps ! i) else s))]])"
      by (simp only: policy_target_refs tgt)
    show "field ''rules'' (obj_spec (authorization_policy sha c (ps ! i))) =
             Some (JArr [JObj
               [(''from'', JArr [JObj [(''source'', JObj [(''principals'',
                    JArr [JStr (''cluster.local/ns/'' @ model_name c @ ''/sa/''
                                @ source_app_name (ps ! i))])])]]),
                (''to'', JArr (map dump_To (endpoints (ps ! i))))]])"
      by (rule policy_rules)
  qed
  with len show ?thesis by blast
qed

theorem build_one_per_intent_witness:
  "length (snd (build_authorization_policies sha_ex c_ex [intent_ex, intent_ex])) = 2
   \<and> (\<exists>r to. snd (build_authorization_policies sha_ex c_ex [intent_ex, intent_ex]) ! 1 = Some r
         \<and> field ''targetRefs'' (obj_spec r) =
             Some (JArr [JObj [(''group'', JStr []), (''kind'', JStr ''Service''),
                               (''name'', JStr ''app-b'')]])
         \<and> field ''rules'' (obj_spec r) =
             Some (JArr [JObj
               [(''from'', JArr [JObj [(''source'', JObj [(''principals'',
                    JArr [JStr ''cluster.local/ns/mymodel/sa/app-a''])])]]),
                (''to'', to)]]))"
proof -
  let ?ps = "[intent_ex, intent_ex]"
  have second: "(1::nat) < length ?ps" by simp
  have at1: "?ps ! 1 = intent_ex" by simp
  have src: "source_app_name intent_ex = ''app-a''" and tgt: "target_service intent_ex = None"
    and app: "target_app_name intent_ex = ''app-b''" and ns: "model_name c_ex = ''mymodel''"
    by (simp_all add: intent_ex_def c_ex_def)
  from build_one_per_intent [of sha_ex c_ex ?ps]
  have len: "length (snd (build_authorization_policies sha_ex c_ex ?ps)) = length ?ps"
    and each: "\<forall>i < length ?ps. \<exists>r to.
         snd (build_authorization_policies sha_ex c_ex ?ps) ! i = Some r
         \<and> obj_name r = generate_authorization_policy_name sha_ex c_ex (?ps ! i)
         \<and> obj_namespace r = model_name c_ex
         \<and> field ''targetRefs'' (obj_spec r) =
             Some (JArr [JObj [(''group'', JStr []), (''kind'', JStr ''Service''),
                (''name'', JStr (case target_service (?ps ! i) of
                                   None \<Rightarrow> target_app_name (?ps ! i)
                                 | Some s \<Rightarrow> if s = [] then target_app_name (?ps ! i) else s))]])
         \<and> field ''rules'' (obj_spec r) =
             Some (JArr [JObj
               [(''from'', JArr [JObj [(''source'', JObj [(''principals'',
                    JArr [JStr (''cluster.local/ns/'' @ model_name c_ex @ ''/sa/''
                                @ source_app_name (?ps ! i))])])]]),
                (''to'', to)]])"
    by blast+
  from each [rule_format, OF second] obtain r to where
    "snd (build_authorization_policies sha_ex c_ex ?ps) ! 1 = Some r"
    "field ''targetRefs'' (obj_spec r) =
             Some (JArr [JObj [(''group'', JStr []), (''kind'', JStr ''Service''),
                               (''name'', JStr ''app-b'')]])"
    "field ''rules'' (obj_spec r) =
             Some (JArr [JObj
               [(''from'', JArr [JObj [(''source'', JObj [(''principals'',
                    JArr [JStr ''cluster.local/ns/mymodel/sa/app-a''])])]]),
                (''to'', to)]])"
    unfolding at1 src tgt app ns by auto
  with len show ?thesis by auto
qed

text \<open>
  The claim as stated fails for an intent whose \<^verbatim>\<open>target_service\<close> is present but empty:
  \<^verbatim>\<open>policy.target_service or policy.target_app_name\<close> then takes the application name.
\<close>

theorem build_one_per_intent_counterexample:
  "target_service intent_empty_service = Some []
   \<and> target_app_name intent_empty_service = ''app-b''
   \<and> snd (build_authorization_policies sha_ex c_ex [intent_empty_service])
       = [Some (authorization_policy sha_ex c_ex intent_empty_service)]
   \<and> field ''targetRefs'' (obj_spec (authorization_policy sha_ex c_ex intent_empty_service))
       = Some (JArr [JObj [(''group'', JStr []), (''kind'', JStr ''Service''),
                           (''name'', JStr ''app-b'')]])"
  by (simp add: build_policies policy_target_refs target_service_or_app_def
        intent_empty_service_def intent_ex_def)

section \<open>Properties of the orchestrator\<close>

lemma polls_Nil: "polls [] = 0"
  by (simp add: polls_def)

lemma polls_Cons: "polls (ev # es) = (if ev = GetDeployment then Suc (polls es) else polls es)"
  by (simp add: polls_def)

lemma polls_append: "polls (xs @ ys) = polls xs + polls ys"
  by (simp add: polls_def)

lemma add_labels_unfetched:
  "add_labels c None ok =
     ([GetNamespace, Log LError ''Error fetching namespace''],
      Some (RuntimeError ''Error fetching namespace: None''))"
  by (simp add: add_labels_def get_namespace_def)

lemma remove_labels_unfetched:
  "remove_labels c None ok =
     ([GetNamespace, Log LError ''Error fetching namespace''],
      Some (RuntimeError ''Error fetching namespace: None''))"
  by (simp add: remove_labels_def get_namespace_def)

lemma polls_label_step: "polls (fst (label_step e c)) = 0"
  by (cases "namespace_answer e")
     (simp_all add: label_step_def add_labels_unfetched remove_labels_unfetched
        add_labels_fetched remove_labels_fetched patch_namespace_def polls_Cons polls_Nil)

lemma label_step_raises_iff: "snd (label_step e c) = None \<longleftrightarrow> namespace_answer e \<noteq> None"
  by (cases "namespace_answer e")
     (simp_all add: label_step_def add_labels_unfetched remove_labels_unfetched
        add_labels_fetched remove_labels_fetched)

lemma sync_waypoint_resources_eq:
  "sync_waypoint_resources e c objs =
     ((Reconcile (waypoint_scope e c) [construct_waypoint c] # fst (label_step e c),
       snd (label_step e c)),
      reconcile (waypoint_scope e c) [construct_waypoint c] objs)"
  by (simp add: sync_waypoint_resources_def label_step_def Let_def split: prod.splits)

lemma is_waypoint_ready_eq: "is_waypoint_ready t get = is_waypoint_deployment_ready t get"
  by (auto simp: is_waypoint_ready_def split: prod.splits)

lemma waypoint_ready_no_namespace_call:
  "\<not> list_ex is_namespace_call (fst (is_waypoint_ready t get))"
  by (simp add: is_waypoint_ready_eq is_waypoint_deployment_ready_def poll_loop_no_namespace_call)

lemma proxy_no_namespace_call: "\<not> list_ex is_namespace_call (setup_proxy_pebble_service e c)"
  by (simp add: setup_proxy_pebble_service_def)

lemma policies_no_namespace_call:
  "\<not> list_ex is_namespace_call (fst (fst (sync_authorization_policies e c objs)))"
proof -
  have "\<not> is_namespace_call ev" if "ev \<in> set (fst (build_authorization_policies (sha256_str e) c (mesh_info e)))" for ev
    using build_events_are_logs [OF that] by auto
  then show ?thesis
    by (auto simp: sync_authorization_policies_def Let_def list_ex_iff split: prod.splits)
qed

lemma policies_never_raise: "snd (fst (sync_authorization_policies e c objs)) = None"
  by (simp add: sync_authorization_policies_def Let_def split: prod.splits)

lemma no_namespace_call_no_patch: "\<not> list_ex is_namespace_call es \<Longrightarrow> patches es = []"
proof (induction es)
  case Nil
  show ?case by (simp add: patches_Nil)
next
  case (Cons ev es)
  then show ?case by (cases ev) (simp_all add: patches_Cons)
qed

lemma reconciles_Nil: "reconciles [] = []"
  by (simp add: reconciles_def List.map_filter_simps)

lemma reconciles_Cons:
  "reconciles (ev # es) =
     (case reconcile_of ev of None \<Rightarrow> reconciles es | Some r \<Rightarrow> r # reconciles es)"
  by (simp add: reconciles_def List.map_filter_simps split: option.splits)

lemma reconciles_append: "reconciles (xs @ ys) = reconciles xs @ reconciles ys"
  by (simp add: reconciles_def List.map_filter_def)

lemma reconciles_label_step: "reconciles (fst (label_step e c)) = []"
  by (cases "namespace_answer e")
     (simp_all add: label_step_def add_labels_unfetched remove_labels_unfetched
        add_labels_fetched remove_labels_fetched patch_namespace_def reconciles_Cons
        reconciles_Nil)

lemma sync_all_leader:
  assumes "is_leader e"
  shows "sync_all_resources e c objs =
   (let head = [SetStatus (MaintenanceStatus ''Validating waypoint readiness''),
                Reconcile (waypoint_scope e c) [construct_waypoint c]] @ fst (label_step e c);
        objs1 = reconcile (waypoint_scope e c) [construct_waypoint c] objs
    in case snd (label_step e c) of
         Some ex \<Rightarrow> ((head, Some ex), objs1)
       | None \<Rightarrow>
           if \<not> snd (is_waypoint_deployment_ready (ready_timeout e) (deployment_answer e))
           then ((head @ fst (is_waypoint_deployment_ready (ready_timeout e) (deployment_answer e)),
                  Some NOT_READY), objs1)
           else ((head @ fst (is_waypoint_deployment_ready (ready_timeout e) (deployment_answer e))
                    @ setup_proxy_pebble_service e c
                    @ [SetStatus (MaintenanceStatus ''Updating AuthorizationPolicies'')]
                    @ fst (fst (sync_authorization_policies e c objs1))
                    @ [SetStatus ActiveStatus], None),
                 snd (sync_authorization_policies e c objs1)))"
  using assms policies_never_raise [of e c "reconcile (waypoint_scope e c) [construct_waypoint c] objs"]
  by (auto simp: sync_all_resources_def sync_waypoint_resources_eq is_waypoint_ready_eq Let_def
        split: prod.splits option.splits)

text \<open>
  Claim C3, as amended. In every sync run on the leader the namespace label step (claim
  or release) is performed right after the waypoint reconcile and before the readiness
  wait: the trace is the status line, the waypoint reconcile, the whole label step, and
  then the rest; the label step reads the Deployment never, and nothing after it touches
  the namespace. So the patches a run sends to the namespace are those of its label
  step, whether or not the readiness gate passes afterwards.
\<close>

theorem labels_before_readiness:
  assumes "is_leader e"
  shows "\<exists>post. fst (fst (sync_all_resources e c objs)) =
            [SetStatus (MaintenanceStatus ''Validating waypoint readiness''),
             Reconcile (waypoint_scope e c) [construct_waypoint c]]
            @ fst (label_step e c) @ post
          \<and> polls (fst (label_step e c)) = 0
          \<and> \<not> list_ex is_namespace_call post
          \<and> patches (fst (fst (sync_all_resources e c objs))) = patches (fst (label_step e c))"
proof -
  let ?rd = "is_waypoint_deployment_ready (ready_timeout e) (deployment_answer e)"
  let ?objs1 = "reconcile (waypoint_scope e c) [construct_waypoint c] objs"
  let ?head = "[SetStatus (MaintenanceStatus ''Validating waypoint readiness''),
             Reconcile (waypoint_scope e c) [construct_waypoint c]]"
  define post where "post =
     (case snd (label_step e c) of
        Some ex \<Rightarrow> []
      | None \<Rightarrow> if \<not> snd ?rd then fst ?rd
                else fst ?rd @ setup_proxy_pebble_service e c
                    @ [SetStatus (MaintenanceStatus ''Updating AuthorizationPolicies'')]
                    @ fst (fst (sync_authorization_policies e c ?objs1))
                    @ [SetStatus ActiveStatus])"
  have tr: "fst (fst (sync_all_resources e c objs)) = ?head @ fst (label_step e c) @ post"
    unfolding sync_all_leader [OF assms] post_def Let_def
    by (simp split: option.splits)
  have rd: "\<not> list_ex is_namespace_call (fst ?rd)"
    using waypoint_ready_no_namespace_call [of "ready_timeout e" "deployment_answer e"]
    by (simp add: is_waypoint_ready_eq)
  have quiet: "\<not> list_ex is_namespace_call post"
    unfolding post_def
    using rd proxy_no_namespace_call [of e c] policies_no_namespace_call [of e c ?objs1]
    by (simp split: option.splits)
  have "patches (fst (fst (sync_all_resources e c objs))) = patches (fst (label_step e c))"
    unfolding tr using no_namespace_call_no_patch [OF quiet]
    by (simp add: patches_append patches_Cons patches_Nil)
  with tr quiet polls_label_step show ?thesis by blast
qed

text \<open>The label step of the example run, on a namespace without labels.\<close>

lemma label_step_env_ex:
  "namespace_answer e = Some (namespace_with []) \<Longrightarrow> model_on_mesh e \<Longrightarrow> patch_ok e \<Longrightarrow>
   label_step e c_ex =
     ([GetNamespace,
       PatchNamespace [(USE_WAYPOINT, Some ''beacon-mymodel-waypoint''),
                       (DATAPLANE_MODE, Some ''ambient''),
                       (MANAGED_BY, Some ''beacon-mymodel'')]], None)"
  by (simp add: label_step_def add_labels_fetched labels_of_def namespace_with_def
        truthy_def patch_namespace_def dict_update_def as_patch_def
        c_ex_def app_identity_def waypoint_name_def
        USE_WAYPOINT_def DATAPLANE_MODE_def MANAGED_BY_def)

theorem labels_before_readiness_witness:
  "is_leader env_ex
   \<and> patches (fst (fst (sync_all_resources env_ex c_ex [])))
       = [[(USE_WAYPOINT, Some ''beacon-mymodel-waypoint''),
           (DATAPLANE_MODE, Some ''ambient''),
           (MANAGED_BY, Some ''beacon-mymodel'')]]"
proof -
  have leader: "is_leader env_ex" by (simp add: env_ex_def)
  have step: "patches (fst (label_step env_ex c_ex))
       = [[(USE_WAYPOINT, Some ''beacon-mymodel-waypoint''),
           (DATAPLANE_MODE, Some ''ambient''),
           (MANAGED_BY, Some ''beacon-mymodel'')]]"
    by (simp add: label_step_env_ex env_ex_def patches_Cons patches_Nil)
  from labels_before_readiness [OF leader, of c_ex "[]"] step leader show ?thesis by auto
qed

text \<open>
  The claim as stated fails: in the example run with a Deployment that is never found,
  the three labels are patched onto the namespace before the first readiness read, and
  the run then ends with the readiness error after three failed reads.
\<close>

theorem labels_before_readiness_counterexample:
  "fst (sync_all_resources env_never_found c_ex []) =
     ([SetStatus (MaintenanceStatus ''Validating waypoint readiness''),
       Reconcile (waypoint_scope env_ex c_ex) [construct_waypoint c_ex],
       GetNamespace,
       PatchNamespace [(USE_WAYPOINT, Some ''beacon-mymodel-waypoint''),
                       (DATAPLANE_MODE, Some ''ambient''),
                       (MANAGED_BY, Some ''beacon-mymodel'')],
       GetDeployment, Log LInfo ''Deployment not found, retrying...'', Sleep 10,
       GetDeployment, Log LInfo ''Deployment not found, retrying...'', Sleep 10,
       GetDeployment, Log LInfo ''Deployment not found, retrying...'', Sleep 10],
      Some NOT_READY)"
proof -
  let ?e = env_never_found
  have leader: "is_leader ?e" by (simp add: env_never_found_def env_ex_def)
  have step: "label_step ?e c_ex =
     ([GetNamespace,
       PatchNamespace [(USE_WAYPOINT, Some ''beacon-mymodel-waypoint''),
                       (DATAPLANE_MODE, Some ''ambient''),
                       (MANAGED_BY, Some ''beacon-mymodel'')]], None)"
    by (rule label_step_env_ex) (simp_all add: env_never_found_def env_ex_def)
  have wait: "is_waypoint_deployment_ready (ready_timeout ?e) (deployment_answer ?e) =
     ([GetDeployment, Log LInfo ''Deployment not found, retrying...'', Sleep 10,
       GetDeployment, Log LInfo ''Deployment not found, retrying...'', Sleep 10,
       GetDeployment, Log LInfo ''Deployment not found, retrying...'', Sleep 10], False)"
    by (simp add: env_never_found_def env_ex_def never_found_def is_waypoint_deployment_ready_def py_range_def upt_rec)
  have scope: "waypoint_scope ?e c_ex = waypoint_scope env_ex c_ex"
    by (simp add: waypoint_scope_def env_never_found_def env_ex_def)
  show ?thesis
    unfolding sync_all_leader [OF leader] Let_def step wait scope by simp
qed

text \<open>
  Claim C9, as amended. For every ready-timeout below 10 the loop of the readiness check
  has nothing to iterate over (\<^verbatim>\<open>range(timeout // 10)\<close> is empty), so the check reads the
  Deployment never and returns false whatever the cluster would answer. Every sync run
  that reaches the check (the unit is the leader and the namespace could be fetched in
  the label step before it) then ends with the readiness error, without a single read of
  the Deployment and with the waypoint reconcile as its only reconcile call.
\<close>

theorem short_timeout_never_ready:
  assumes "ready_timeout e < 10"
  shows "py_range (ready_timeout e div 10) = []
       \<and> is_waypoint_deployment_ready (ready_timeout e) get = ([], False)
       \<and> (is_leader e \<and> namespace_answer e \<noteq> None \<longrightarrow>
            snd (fst (sync_all_resources e c objs)) = Some NOT_READY
            \<and> polls (fst (fst (sync_all_resources e c objs))) = 0
            \<and> reconciles (fst (fst (sync_all_resources e c objs)))
                = [(waypoint_scope e c, [construct_waypoint c])])"
proof -
  from assms have le: "ready_timeout e div 10 \<le> 0" by simp
  then have r: "py_range (ready_timeout e div 10) = []" by (simp add: py_range_def)
  then have w: "is_waypoint_deployment_ready (ready_timeout e) get = ([], False)" for get
    by (simp add: is_waypoint_deployment_ready_def)
  have "snd (fst (sync_all_resources e c objs)) = Some NOT_READY
        \<and> polls (fst (fst (sync_all_resources e c objs))) = 0
        \<and> reconciles (fst (fst (sync_all_resources e c objs)))
                = [(waypoint_scope e c, [construct_waypoint c])]"
    if "is_leader e" and "namespace_answer e \<noteq> None"
  proof -
    from that(2) have ok: "snd (label_step e c) = None" by (simp add: label_step_raises_iff)
    show ?thesis
      unfolding sync_all_leader [OF that(1)] Let_def
      using ok polls_label_step [of e c] reconciles_label_step [of e c]
      by (simp add: w polls_append polls_Cons polls_Nil reconciles_Cons)
  qed
  with r w show ?thesis by blast
qed

theorem short_timeout_never_ready_witness:
  "ready_timeout env_short_timeout < 10
   \<and> snd (fst (sync_all_resources env_short_timeout c_ex [])) = Some NOT_READY
   \<and> polls (fst (fst (sync_all_resources env_short_timeout c_ex []))) = 0"
  using short_timeout_never_ready [of env_short_timeout never_found c_ex "[]"]
  by (simp add: env_short_timeout_def env_ex_def)

text \<open>
  The claim as stated fails on a unit that is not the leader: with a timeout of 5 the
  run sets the blocked status and returns, raising nothing.
\<close>

theorem short_timeout_never_ready_counterexample:
  "ready_timeout env_follower < 10
   \<and> sync_all_resources env_follower c_ex [] =
       (([SetStatus (BlockedStatus ''Waypoint can only be provided on the leader unit.'')],
         None), [])"
  by (simp add: sync_all_resources_def env_follower_def env_ex_def)

text \<open>Reconciling a scope to the empty list.\<close>

lemma reconcile_empty:
  "reconcile scope [] objs =
     filter (\<lambda>ob. ident ob \<notin> ident ` {x \<in> set objs. in_scope scope x}) objs"
  by (simp add: reconcile_def)

lemma reconcile_empty_clears_scope:
  "filter (in_scope scope) (reconcile scope [] objs) = []"
  by (auto simp: reconcile_empty filter_empty_conv)

lemma reconcile_empty_keeps_others:
  assumes "distinct (map ident objs)"
  shows "filter (\<lambda>ob. \<not> in_scope scope ob) (reconcile scope [] objs)
           = filter (\<lambda>ob. \<not> in_scope scope ob) objs"
proof -
  have "ident ob \<notin> ident ` {x \<in> set objs. in_scope scope x}"
    if "ob \<in> set objs" and "\<not> in_scope scope ob" for ob
  proof
    assume "ident ob \<in> ident ` {x \<in> set objs. in_scope scope x}"
    then obtain x where x: "x \<in> set objs" "in_scope scope x" "ident x = ident ob" by auto
    from assms x(1) that(1) x(3) have "x = ob"
      by (metis distinct_map inj_on_def)
    with x(2) that(2) show False by simp
  qed
  then show ?thesis
    unfolding reconcile_empty by (auto intro: filter_cong)
qed

text \<open>
  Claim C5. \<^verbatim>\<open>_sync_authorization_policies\<close> calls the reconciler of the policy scope
  exactly once, whatever the toggle: with the empty list when
  \<^verbatim>\<open>manage-authorization-policies\<close> is false, and with the policies built from the
  current intents, one per intent and in order, when it is true. In the first case no
  object of the policy scope is left on the cluster afterwards, and (on a cluster whose
  objects have distinct identities) every object outside the scope is kept.
\<close>

theorem policy_reconcile_never_skipped:
  "reconciles (fst (fst (sync_authorization_policies e c objs))) =
     [(authorization_policy_scope e c,
       if manage_authorization_policies e
       then map (authorization_policy (sha256_str e) c) (mesh_info e) else [])]
   \<and> snd (sync_authorization_policies e c objs) =
       reconcile (authorization_policy_scope e c)
         (if manage_authorization_policies e
          then map (authorization_policy (sha256_str e) c) (mesh_info e) else []) objs
   \<and> map Some (map (authorization_policy (sha256_str e) c) (mesh_info e))
       = snd (build_authorization_policies (sha256_str e) c (mesh_info e))
   \<and> (\<not> manage_authorization_policies e \<longrightarrow>
         filter (in_scope (authorization_policy_scope e c))
           (snd (sync_authorization_policies e c objs)) = []
         \<and> (distinct (map ident objs) \<longrightarrow>
              filter (\<lambda>ob. \<not> in_scope (authorization_policy_scope e c) ob)
                (snd (sync_authorization_policies e c objs))
              = filter (\<lambda>ob. \<not> in_scope (authorization_policy_scope e c) ob) objs))"
proof -
  have logs: "reconciles (fst (build_authorization_policies (sha256_str e) c (mesh_info e))) = []"
  proof -
    have "reconcile_of ev = None"
      if "ev \<in> set (fst (build_authorization_policies (sha256_str e) c (mesh_info e)))" for ev
      using build_events_are_logs [OF that] by auto
    then show ?thesis
      by (simp add: reconciles_def List.map_filter_def filter_empty_conv)
  qed
  have tr: "reconciles (fst (fst (sync_authorization_policies e c objs))) =
     [(authorization_policy_scope e c,
       if manage_authorization_policies e
       then map (authorization_policy (sha256_str e) c) (mesh_info e) else [])]"
    using logs build_leaves_no_None [of "sha256_str e" c "mesh_info e"]
    by (auto simp: sync_authorization_policies_def Let_def reconciles_append reconciles_Cons
          reconciles_Nil split: prod.splits)
  have st: "snd (sync_authorization_policies e c objs) =
       reconcile (authorization_policy_scope e c)
         (if manage_authorization_policies e
          then map (authorization_policy (sha256_str e) c) (mesh_info e) else []) objs"
    using build_leaves_no_None [of "sha256_str e" c "mesh_info e"]
    by (auto simp: sync_authorization_policies_def Let_def split: prod.splits)
  have bl: "map Some (map (authorization_policy (sha256_str e) c) (mesh_info e))
       = snd (build_authorization_policies (sha256_str e) c (mesh_info e))"
    by (simp add: build_policies)
  show ?thesis
    using tr st bl reconcile_empty_clears_scope reconcile_empty_keeps_others by simp
qed

theorem policy_reconcile_never_skipped_witness:
  "\<not> manage_authorization_policies env_policies_off
   \<and> distinct (map ident cluster_ex)
   \<and> length (filter (in_scope (authorization_policy_scope env_ex c_ex)) cluster_ex) = 3
   \<and> snd (sync_authorization_policies env_policies_off
            c_ex cluster_ex)
       = [stamp [(''instance'', ''beacon-mymodel''), (''scope'', ''istio-waypoint'')]
            (construct_waypoint c_ex)]"
proof -
  let ?e = env_policies_off
  let ?scope = "[(''instance'', ''beacon-mymodel''), (''scope'', ''istio-authorization-policy'')]"
  let ?wp = "stamp [(''instance'', ''beacon-mymodel''), (''scope'', ''istio-waypoint'')]
               (construct_waypoint c_ex)"
  have off: "\<not> manage_authorization_policies ?e" by (simp add: env_policies_off_def)
  have scope: "authorization_policy_scope ?e c_ex = ?scope"
      "authorization_policy_scope env_ex c_ex = ?scope"
    by (simp_all add: authorization_policy_scope_def env_policies_off_def env_ex_def c_ex_def
          AUTHORIZATION_POLICY_LABEL_def)
  have ins: "in_scope ?scope (prior_policy n)" for n
    by (simp add: in_scope_def prior_policy_def labels_or_empty_def)
  have out: "\<not> in_scope ?scope ?wp"
    by (simp add: in_scope_def stamp_def labels_or_empty_def construct_waypoint_def
          dict_update_def telemetry_labels_def c_ex_def)
  have dist: "distinct (map ident cluster_ex)"
    by (simp add: cluster_ex_def ident_def prior_policy_def stamp_def construct_waypoint_def)
  have three: "length (filter (in_scope ?scope) cluster_ex) = 3"
    by (simp add: cluster_ex_def ins out)
  have others: "filter (\<lambda>ob. \<not> in_scope ?scope ob) cluster_ex = [?wp]"
    by (simp add: cluster_ex_def ins out)
  from policy_reconcile_never_skipped [of ?e c_ex cluster_ex] off dist
  have gone: "filter (in_scope ?scope) (snd (sync_authorization_policies ?e c_ex cluster_ex)) = []"
    and kept: "filter (\<lambda>ob. \<not> in_scope ?scope ob) (snd (sync_authorization_policies ?e c_ex cluster_ex))
               = filter (\<lambda>ob. \<not> in_scope ?scope ob) cluster_ex"
    unfolding scope by blast+
  from gone have "filter (\<lambda>ob. \<not> in_scope ?scope ob) (snd (sync_authorization_policies ?e c_ex cluster_ex))
      = snd (sync_authorization_policies ?e c_ex cluster_ex)"
    by (simp add: filter_empty_conv filter_id_conv)
  with kept others have "snd (sync_authorization_policies ?e c_ex cluster_ex) = [?wp]" by simp
  with off dist three scope show ?thesis by simp
qed

end
